theory Spec2Isabelle
  imports Complex_Main
begin

section \<open>Exceptions and diagnostics\<close>

text \<open>
  Python exceptions are values. \<open>Raised\<close> stands for any exception of a
  collaborator (the wrapped function, the compilation backend, the KL
  registry) other than the ones the code under study names itself.
\<close>

datatype exn =
    NotImplementedError string
  | AssertionError
  | KeyError string
  | TypeError
  | AttributeError
  | ZeroDivisionError
  | Raised string

datatype diagnostic = MeanFieldWarning "string list" "string list"

section \<open>Traces and sites (pyro/infer/trace\_mean\_field\_elbo.py)\<close>

text \<open>
  A trace is the ordered mapping \<open>trace.nodes\<close>: an association list from site
  names to sites, in insertion order. A site is the dictionary the tracer
  builds; only the keys the estimator reads are kept. Distributions (\<open>'d\<close>) and
  tensors (\<open>'t\<close>) belong to collaborators and stay abstract. Scalar tensors and
  Python floats are idealised as reals.
\<close>

datatype site_type = Sample | Param | Other_site

record ('d, 't) site =
  type :: site_type
  fn :: 'd
  is_observed :: bool
  log_prob_sum :: real
  scale :: real
  mask :: "'t option"
  score_parts :: "'t \<times> 't \<times> 't"
  infer :: "string \<rightharpoonup> bool"

type_synonym ('d, 't) trace = "(string \<times> ('d, 't) site) list"

text \<open>
  The collaborators the estimator calls and that are not part of the file:
  the validation flag, the distribution attributes, \<open>kl_divergence\<close> (which may
  raise), \<open>scale_and_mask\<close>, \<open>is_identically_zero\<close>, and the tensor operations
  \<open>.shape\<close> and \<open>.sum()\<close>. They are parameters of every definition below.
\<close>

record ('d, 't) collab =
  is_validation_enabled :: bool
  has_rsample :: "'d \<Rightarrow> bool"
  batch_shape :: "'d \<Rightarrow> nat list"
  kl_divergence :: "'d \<Rightarrow> 'd \<Rightarrow> exn + 't"
  scale_and_mask :: "'t \<Rightarrow> real \<Rightarrow> 't option \<Rightarrow> 't"
  is_identically_zero :: "'t \<Rightarrow> bool"
  shape :: "'t \<Rightarrow> nat list"
  tensor_sum :: "'t \<Rightarrow> real"

definition entropy_term :: "'t \<times> 't \<times> 't \<Rightarrow> 't" where
  "entropy_term sp = snd (snd sp)"

definition score_function_term :: "'t \<times> 't \<times> 't \<Rightarrow> 't" where
  "score_function_term sp = fst (snd sp)"

definition in_nodes :: "string \<Rightarrow> ('d, 't) trace \<Rightarrow> bool" where
  "in_nodes name tr = (name \<in> set (map fst tr))"

subsection \<open>\<open>_check_mean_field_requirement\<close>\<close>

definition sample_sites_in :: "('d, 't) trace \<Rightarrow> ('d, 't) trace \<Rightarrow> string list" where
  "sample_sites_in tr other =
     map fst (filter (\<lambda>(name, s). type s = Sample \<and> in_nodes name other) tr)"

definition check_mean_field_requirement ::
  "('d, 't) trace \<Rightarrow> ('d, 't) trace \<Rightarrow> exn + diagnostic list" where
  "check_mean_field_requirement model_trace guide_trace =
     (let model_sites = sample_sites_in model_trace guide_trace;
          guide_sites = sample_sites_in guide_trace model_trace
      in if set model_sites \<noteq> set guide_sites then Inl AssertionError
         else if model_sites \<noteq> guide_sites
              then Inr [MeanFieldWarning model_sites guide_sites]
              else Inr [])"

subsection \<open>\<open>_check_fully_reparametrized\<close>\<close>

definition fully_rep :: "('d, 't) collab \<Rightarrow> ('d, 't) site \<Rightarrow> bool" where
  "fully_rep c guide_site =
     (has_rsample c (fn guide_site)
      \<and> \<not> is_identically_zero c (entropy_term (score_parts guide_site))
      \<and> is_identically_zero c (score_function_term (score_parts guide_site)))"

definition reparam_msg :: string where
  "reparam_msg = ''All distributions in the guide must be fully reparameterized.''"

definition check_fully_reparametrized ::
  "('d, 't) collab \<Rightarrow> ('d, 't) site \<Rightarrow> exn + unit" where
  "check_fully_reparametrized c guide_site =
     (if \<not> fully_rep c guide_site then Inl (NotImplementedError reparam_msg)
      else Inr ())"

subsection \<open>\<open>TraceMeanField_ELBO._get_trace\<close>\<close>

text \<open>
  The pair of traces comes from the superclass; the method adds the ordering
  check when validation is enabled and hands the pair on unchanged.
\<close>

definition get_trace ::
  "('d, 't) collab \<Rightarrow> ('d, 't) trace \<times> ('d, 't) trace
     \<Rightarrow> exn + (diagnostic list \<times> ('d, 't) trace \<times> ('d, 't) trace)" where
  "get_trace c p =
     (case p of (model_trace, guide_trace) \<Rightarrow>
        if is_validation_enabled c
        then (case check_mean_field_requirement model_trace guide_trace of
                Inl e \<Rightarrow> Inl e
              | Inr ws \<Rightarrow> Inr (ws, model_trace, guide_trace))
        else Inr ([], model_trace, guide_trace))"

subsection \<open>\<open>TraceMeanField_ELBO._differentiable_loss_particle\<close>\<close>

text \<open>
  \<open>entropy_term.sum()\<close>. The entropy term of a site is a tensor or the plain
  number \<open>0\<close>, which is what \<open>is_identically_zero\<close> recognises; a number has
  no \<open>sum\<close> method, and the call raises \<open>AttributeError\<close>.
\<close>

definition entropy_sum :: "('d, 't) collab \<Rightarrow> 't \<Rightarrow> exn + real" where
  "entropy_sum c t =
     (if is_identically_zero c t then Inl AttributeError else Inr (tensor_sum c t))"

text \<open>
  The body of the \<open>try\<close> block for one latent site: the analytic KL (a tensor
  when the registry returns one), scaled and masked, checked against the
  batch shape and subtracted; a \<open>NotImplementedError\<close> raised inside the block
  selects the fallback, every other exception leaves the block. The fallback
  runs in the \<open>except\<close> clause, so what it raises reaches the caller.
\<close>

definition kl_or_fallback ::
  "('d, 't) collab \<Rightarrow> ('d, 't) site \<Rightarrow> ('d, 't) site \<Rightarrow> real \<Rightarrow> exn + real" where
  "kl_or_fallback c model_site guide_site elbo_particle =
     (case kl_divergence c (fn guide_site) (fn model_site) of
        Inr kl \<Rightarrow>
          (let kl_qp = scale_and_mask c kl (scale guide_site) (mask guide_site)
           in if shape c kl_qp = batch_shape c (fn guide_site)
              then Inr (elbo_particle - tensor_sum c kl_qp)
              else Inl AssertionError)
      | Inl (NotImplementedError m) \<Rightarrow>
          (case entropy_sum c (entropy_term (score_parts guide_site)) of
             Inl e \<Rightarrow> Inl e
           | Inr h \<Rightarrow> Inr (elbo_particle + log_prob_sum model_site - h))
      | Inl e \<Rightarrow> Inl e)"

text \<open>The first loop, over \<open>model_trace.nodes.items()\<close>.\<close>

fun model_sites_loop ::
  "('d, 't) collab \<Rightarrow> ('d, 't) trace \<Rightarrow> ('d, 't) trace \<Rightarrow> real \<Rightarrow> exn + real" where
  "model_sites_loop c guide_trace [] elbo_particle = Inr elbo_particle"
| "model_sites_loop c guide_trace ((name, model_site) # rest) elbo_particle =
     (if type model_site = Sample then
        if is_observed model_site
        then model_sites_loop c guide_trace rest (elbo_particle + log_prob_sum model_site)
        else (case map_of guide_trace name of
                None \<Rightarrow> Inl (KeyError name)
              | Some guide_site \<Rightarrow>
                  (case (if is_validation_enabled c
                         then check_fully_reparametrized c guide_site else Inr ()) of
                     Inl e \<Rightarrow> Inl e
                   | Inr u \<Rightarrow>
                       (case kl_or_fallback c model_site guide_site elbo_particle of
                          Inl e \<Rightarrow> Inl e
                        | Inr elbo' \<Rightarrow> model_sites_loop c guide_trace rest elbo')))
      else model_sites_loop c guide_trace rest elbo_particle)"

text \<open>The second loop, over \<open>guide_trace.nodes.items()\<close>: the auxiliary sites.\<close>

fun guide_sites_loop ::
  "('d, 't) collab \<Rightarrow> ('d, 't) trace \<Rightarrow> ('d, 't) trace \<Rightarrow> real \<Rightarrow> exn + real" where
  "guide_sites_loop c model_trace [] elbo_particle = Inr elbo_particle"
| "guide_sites_loop c model_trace ((name, guide_site) # rest) elbo_particle =
     (if type guide_site = Sample \<and> \<not> in_nodes name model_trace then
        if infer guide_site ''is_auxiliary'' \<noteq> Some True then Inl AssertionError
        else (case (if is_validation_enabled c
                    then check_fully_reparametrized c guide_site else Inr ()) of
                Inl e \<Rightarrow> Inl e
              | Inr u \<Rightarrow>
                  (case entropy_sum c (entropy_term (score_parts guide_site)) of
                     Inl e \<Rightarrow> Inl e
                   | Inr h \<Rightarrow> guide_sites_loop c model_trace rest (elbo_particle - h)))
      else guide_sites_loop c model_trace rest elbo_particle)"

text \<open>
  \<open>elbo_of_particle\<close> is the value of the local variable \<open>elbo_particle\<close> when
  the method reaches its \<open>return\<close>; the method returns its negation twice
  (\<open>torch_item\<close> only detaches the number).
\<close>

definition elbo_of_particle ::
  "('d, 't) collab \<Rightarrow> ('d, 't) trace \<Rightarrow> ('d, 't) trace \<Rightarrow> exn + real" where
  "elbo_of_particle c model_trace guide_trace =
     (case model_sites_loop c guide_trace model_trace 0 of
        Inl e \<Rightarrow> Inl e
      | Inr e1 \<Rightarrow> guide_sites_loop c model_trace guide_trace e1)"

definition differentiable_loss_particle ::
  "('d, 't) collab \<Rightarrow> ('d, 't) trace \<Rightarrow> ('d, 't) trace \<Rightarrow> exn + (real \<times> real)" where
  "differentiable_loss_particle c model_trace guide_trace =
     (case elbo_of_particle c model_trace guide_trace of
        Inl e \<Rightarrow> Inl e
      | Inr elbo_particle \<Rightarrow> Inr (- elbo_particle, - elbo_particle))"

subsection \<open>\<open>TraceMeanField_ELBO.loss\<close>\<close>

text \<open>
  The loop over the pairs that \<open>_get_traces\<close> yields. The local variable the
  source calls \<open>elbo_particle\<close> is the first component of what
  \<open>_differentiable_loss_particle\<close> returned. The division is Python's true
  division, which raises on a zero divisor. \<open>warn_if_nan\<close> only emits a
  diagnostic and has no part in the value returned.
\<close>

fun loss_loop ::
  "('d, 't) collab \<Rightarrow> nat \<Rightarrow> (('d, 't) trace \<times> ('d, 't) trace) list \<Rightarrow> real \<Rightarrow> exn + real" where
  "loss_loop c num_particles [] elbo = Inr elbo"
| "loss_loop c num_particles ((model_trace, guide_trace) # rest) elbo =
     (case differentiable_loss_particle c model_trace guide_trace of
        Inl e \<Rightarrow> Inl e
      | Inr (elbo_particle, surrogate) \<Rightarrow>
          if num_particles = 0 then Inl ZeroDivisionError
          else loss_loop c num_particles rest (elbo + elbo_particle / real num_particles))"

definition loss ::
  "('d, 't) collab \<Rightarrow> nat \<Rightarrow> (('d, 't) trace \<times> ('d, 't) trace) list \<Rightarrow> exn + real" where
  "loss c num_particles traces =
     (case loss_loop c num_particles traces 0.0 of
        Inl e \<Rightarrow> Inl e
      | Inr elbo \<Rightarrow> Inr (- elbo))"

section \<open>The compiled-function wrapper (pyro/ops/jit.py)\<close>

text \<open>
  Positional values (tensors, among them the unconstrained parameters) have
  type \<open>'a\<close>, keyword arguments \<open>'k\<close>, results \<open>'r\<close>, constrained parameters
  \<open>'p\<close>, and the global parameter store \<open>'s\<close>. Running Pyro code is an effect
  on the store: it raises, or returns a value together with the names of the
  param sites it issued, which is what a \<open>poutine.trace(param_only=True)\<close>
  around it records. Object identity (\<open>is\<close>) is equality of values of type \<open>'a\<close>.
\<close>

type_synonym ('r, 's) effect = "'s \<Rightarrow> (exn + ('r \<times> string list)) \<times> 's"

type_synonym ('a, 'k, 'r, 's) pyro_fn = "'a list \<Rightarrow> 'k \<Rightarrow> ('r, 's) effect"

text \<open>
  A compiled artifact is called with positional values only. The closure it
  is made from reads \<open>self._param_names\<close> through the weak reference when it
  runs, so an artifact takes the wrapper's current name list as well.
\<close>

type_synonym ('a, 'r, 's) artifact = "string list \<Rightarrow> 'a list \<Rightarrow> ('r, 's) effect"

text \<open>
  The collaborators: \<open>pyro.param(name)\<close> without an initial value,
  \<open>.unconstrained()\<close>, \<open>poutine.replay\<close> and the backend
  \<open>torch.jit.trace\<close>, which is told whether warnings are ignored, may run the
  closure, and may raise.
\<close>

record ('a, 'k, 'r, 'p, 's) jit_collab =
  param :: "string \<Rightarrow> 's \<Rightarrow> exn + 'p"
  unconstrained :: "'p \<Rightarrow> 'a"
  replay :: "('a, 'k, 'r, 's) pyro_fn \<Rightarrow> (string \<rightharpoonup> 'p) \<Rightarrow> ('a, 'k, 'r, 's) pyro_fn"
  jit_trace :: "bool \<Rightarrow> ('a, 'r, 's) artifact \<Rightarrow> string list \<Rightarrow> 'a list
                  \<Rightarrow> 's \<Rightarrow> (exn + ('a, 'r, 's) artifact) \<times> 's"

text \<open>The attributes of a \<open>CompiledFunction\<close>, and \<open>__init__\<close>.\<close>

record ('a, 'k, 'r, 's) compiled_function =
  fn' :: "('a, 'k, 'r, 's) pyro_fn"
  compiled :: "nat \<rightharpoonup> ('a, 'r, 's) artifact"
  ignore_warnings :: bool
  param_names :: "string list option"

definition init ::
  "('a, 'k, 'r, 's) pyro_fn \<Rightarrow> bool \<Rightarrow> ('a, 'k, 'r, 's) compiled_function" where
  "init f iw = \<lparr> fn' = f, compiled = Map.empty, ignore_warnings = iw, param_names = None \<rparr>"

text \<open>
  What lies outside the wrapper: the parameter store, and the record of the
  invocations of the compilation backend (the \<open>len(args)\<close> of each, oldest
  first), kept to count them.
\<close>

record 's world =
  store :: 's
  backend_calls :: "nat list"

text \<open>\<open>pyro.param(name).unconstrained() for name in self._param_names\<close>.\<close>

fun unconstrained_params ::
  "('a, 'k, 'r, 'p, 's) jit_collab \<Rightarrow> string list \<Rightarrow> 's \<Rightarrow> exn + 'a list" where
  "unconstrained_params c [] s = Inr []"
| "unconstrained_params c (name # names) s =
     (case param c name s of
        Inl e \<Rightarrow> Inl e
      | Inr p \<Rightarrow>
          (case unconstrained_params c names s of
             Inl e \<Rightarrow> Inl e
           | Inr us \<Rightarrow> Inr (unconstrained c p # us)))"

text \<open>The loop of the closure that fills \<open>constrained_params\<close>.\<close>

fun constrain ::
  "('a, 'k, 'r, 'p, 's) jit_collab \<Rightarrow> (string \<times> 'a) list \<Rightarrow> 's
     \<Rightarrow> (string \<rightharpoonup> 'p) \<Rightarrow> exn + (string \<rightharpoonup> 'p)" where
  "constrain c [] s constrained_params = Inr constrained_params"
| "constrain c ((name, unconstrained_param) # rest) s constrained_params =
     (case param c name s of
        Inl e \<Rightarrow> Inl e
      | Inr constrained_param \<Rightarrow>
          if unconstrained c constrained_param \<noteq> unconstrained_param
          then Inl AssertionError
          else constrain c rest s (constrained_params(name \<mapsto> constrained_param)))"

text \<open>
  The closure \<open>compiled\<close>. It captures \<open>kwargs\<close> of the call that builds it;
  its \<open>pyro.param\<close> calls and those of the replayed function are the param
  sites it issues.
\<close>

definition compiled_closure ::
  "('a, 'k, 'r, 'p, 's) jit_collab \<Rightarrow> ('a, 'k, 'r, 's) pyro_fn \<Rightarrow> 'k
     \<Rightarrow> ('a, 'r, 's) artifact" where
  "compiled_closure c f kwargs names params_and_args s =
     (let unconstrained_params = take (length names) params_and_args;
          args = drop (length names) params_and_args
      in case constrain c (zip names unconstrained_params) s Map.empty of
           Inl e \<Rightarrow> (Inl e, s)
         | Inr constrained_params \<Rightarrow>
             (case replay c f constrained_params args kwargs s of
                (Inl e, s') \<Rightarrow> (Inl e, s')
              | (Inr (ret, sites), s') \<Rightarrow>
                  (Inr (ret, map fst (zip names unconstrained_params) @ sites), s')))"

definition new_param_msg :: string where
  "new_param_msg = ''pyro.ops.jit.trace assumes all params are created on '' @
                   ''first invocation, but found new param: ''"

text \<open>
  \<open>__call__\<close>, first branch (\<open>argc not in self.compiled\<close>): parameter capture,
  assignment of \<open>self._param_names\<close> (a list of the captured names without
  repetition, in an order Python does not specify), fetching the parameters,
  compilation, and the new cache entry. It yields \<open>params_and_args\<close>.
\<close>

definition first_call ::
  "('a, 'k, 'r, 'p, 's) jit_collab \<Rightarrow> ('a, 'k, 'r, 's) compiled_function \<Rightarrow> 'a list \<Rightarrow> 'k
     \<Rightarrow> 's world \<Rightarrow> (exn + 'a list) \<times> ('a, 'k, 'r, 's) compiled_function \<times> 's world" where
  "first_call c self args kwargs w =
     (case fn' self args kwargs (store w) of
        (Inl e, s1) \<Rightarrow> (Inl e, self, w\<lparr>store := s1\<rparr>)
      | (Inr (r, sites), s1) \<Rightarrow>
          (let names = remdups sites;
               self1 = self\<lparr>param_names := Some names\<rparr>;
               w1 = w\<lparr>store := s1\<rparr>
           in case unconstrained_params c names s1 of
                Inl e \<Rightarrow> (Inl e, self1, w1)
              | Inr ups \<Rightarrow>
                  (let params_and_args = ups @ args;
                       w2 = w1\<lparr>backend_calls := backend_calls w1 @ [length args]\<rparr>
                   in case jit_trace c (ignore_warnings self1)
                             (compiled_closure c (fn' self1) kwargs) names params_and_args s1 of
                        (Inl e, s2) \<Rightarrow> (Inl e, self1, w2\<lparr>store := s2\<rparr>)
                      | (Inr art, s2) \<Rightarrow>
                          (Inr params_and_args,
                           self1\<lparr>compiled := (compiled self1)(length args \<mapsto> art)\<rparr>,
                           w2\<lparr>store := s2\<rparr>))))"

text \<open>\<open>__call__\<close>, second branch: the parameters are fetched by the current names.\<close>

definition later_call ::
  "('a, 'k, 'r, 'p, 's) jit_collab \<Rightarrow> ('a, 'k, 'r, 's) compiled_function \<Rightarrow> 'a list
     \<Rightarrow> 's world \<Rightarrow> (exn + 'a list) \<times> ('a, 'k, 'r, 's) compiled_function \<times> 's world" where
  "later_call c self args w =
     (case param_names self of
        None \<Rightarrow> (Inl TypeError, self, w)
      | Some names \<Rightarrow>
          (case unconstrained_params c names (store w) of
             Inl e \<Rightarrow> (Inl e, self, w)
           | Inr ups \<Rightarrow> (Inr (ups @ args), self, w)))"

text \<open>
  \<open>__call__\<close>, after the branches: the cached artifact is run under a second
  parameter capture, and the first captured name that is not in
  \<open>self._param_names\<close> raises.
\<close>

definition invoke ::
  "('a, 'k, 'r, 's) compiled_function \<Rightarrow> nat \<Rightarrow> 'a list
     \<Rightarrow> 's world \<Rightarrow> (exn + 'r) \<times> ('a, 'k, 'r, 's) compiled_function \<times> 's world" where
  "invoke self argc params_and_args w =
     (case compiled self argc of
        None \<Rightarrow> (Inl (KeyError ''compiled''), self, w)
      | Some art \<Rightarrow>
          (case param_names self of
             None \<Rightarrow> (Inl TypeError, self, w)
           | Some names \<Rightarrow>
               (case art names params_and_args (store w) of
                  (Inl e, s') \<Rightarrow> (Inl e, self, w\<lparr>store := s'\<rparr>)
                | (Inr (ret, sites), s') \<Rightarrow>
                    (case find (\<lambda>name. name \<notin> set names) sites of
                       Some name \<Rightarrow>
                         (Inl (NotImplementedError (new_param_msg @ name)), self,
                          w\<lparr>store := s'\<rparr>)
                     | None \<Rightarrow> (Inr ret, self, w\<lparr>store := s'\<rparr>)))))"

definition call ::
  "('a, 'k, 'r, 'p, 's) jit_collab \<Rightarrow> ('a, 'k, 'r, 's) compiled_function \<Rightarrow> 'a list \<Rightarrow> 'k
     \<Rightarrow> 's world \<Rightarrow> (exn + 'r) \<times> ('a, 'k, 'r, 's) compiled_function \<times> 's world" where
  "call c self args kwargs w =
     (let argc = length args
      in case (if compiled self argc = None then first_call c self args kwargs w
               else later_call c self args w) of
           (Inl e, self1, w1) \<Rightarrow> (Inl e, self1, w1)
         | (Inr params_and_args, self1, w1) \<Rightarrow> invoke self1 argc params_and_args w1)"

text \<open>
  A wrapper's lifetime: a sequence of calls, each with its arguments and with
  whatever happened to the parameter store since the previous call (an
  optimizer step, say). The results are collected.
\<close>

fun calls ::
  "('a, 'k, 'r, 'p, 's) jit_collab \<Rightarrow> ('a, 'k, 'r, 's) compiled_function \<Rightarrow> 's world
     \<Rightarrow> ('a list \<times> 'k \<times> ('s \<Rightarrow> 's)) list
     \<Rightarrow> (exn + 'r) list \<times> ('a, 'k, 'r, 's) compiled_function \<times> 's world" where
  "calls c self w [] = ([], self, w)"
| "calls c self w ((args, kwargs, upd) # rest) =
     (case call c self args kwargs (w\<lparr>store := upd (store w)\<rparr>) of
        (res, self1, w1) \<Rightarrow>
          (case calls c self1 w1 rest of
             (ress, self2, w2) \<Rightarrow> (res # ress, self2, w2)))"


section \<open>Example collaborators and traces\<close>

text \<open>
  A small instance used to run the definitions: distributions are numbered,
  a tensor is the list of its entries, and the analytic KL is defined for
  some pairs only.
\<close>

definition toy_collab :: "bool \<Rightarrow> (nat, real list) collab" where
  "toy_collab v =
     \<lparr> is_validation_enabled = v,
       has_rsample = (\<lambda>d. d \<noteq> 0),
       batch_shape = (\<lambda>d. [d]),
       kl_divergence = (\<lambda>q p. if q = p then Inr (replicate q 1) else
                                if p = 0 then Inl (Raised ''kl'') else
                                if q < p then Inr [1] else Inl (NotImplementedError [])),
       scale_and_mask = (\<lambda>t s m. map (\<lambda>x. s * x) t),
       is_identically_zero = (\<lambda>t. t = []),
       shape = (\<lambda>t. [length t]),
       tensor_sum = sum_list \<rparr>"

definition observed_site :: "real \<Rightarrow> (nat, real list) site" where
  "observed_site x =
     \<lparr> type = Sample, fn = 1, is_observed = True, log_prob_sum = x, scale = 1,
       mask = None, score_parts = ([x], [], [x]), infer = Map.empty \<rparr>"

definition latent_site :: "nat \<Rightarrow> real \<Rightarrow> (nat, real list) site" where
  "latent_site d x =
     \<lparr> type = Sample, fn = d, is_observed = False, log_prob_sum = x, scale = 1,
       mask = None, score_parts = ([x], [], [x]), infer = Map.empty \<rparr>"

definition score_site :: "nat \<Rightarrow> real \<Rightarrow> (nat, real list) site" where
  "score_site d x = (latent_site d x)\<lparr> score_parts := ([x], [x], []) \<rparr>"

definition aux_site :: "nat \<Rightarrow> bool \<Rightarrow> real \<Rightarrow> (nat, real list) site" where
  "aux_site d a x = (latent_site d x)\<lparr> infer := [''is_auxiliary'' \<mapsto> a] \<rparr>"

text \<open>
  An auxiliary site of a partly reparameterized distribution: it has
  \<open>rsample\<close>, and both its score-function term and its entropy term are
  tensors.
\<close>

definition partial_aux_site :: "real \<Rightarrow> (nat, real list) site" where
  "partial_aux_site x = (aux_site 1 True x)\<lparr> score_parts := ([x], [x], [x]) \<rparr>"

definition param_site :: "(nat, real list) site" where
  "param_site =
     \<lparr> type = Param, fn = 0, is_observed = False, log_prob_sum = 0, scale = 1,
       mask = None, score_parts = ([], [], []), infer = Map.empty \<rparr>"

text \<open>
  For the wrapper: the store maps the names of the existing parameters to
  numbers standing for their tensors; a parameter is created when a function
  first asks for it. The backend runs the closure once on the example inputs
  and returns the closure itself as the artifact. The wrapped function issues
  param site \<open>a\<close>, also \<open>bb\<close> when it gets two or more positional arguments,
  and also \<open>ccc\<close> when its arguments add up to more than ten.
\<close>

definition toy_param :: "string \<Rightarrow> (string \<rightharpoonup> nat) \<Rightarrow> exn + nat" where
  "toy_param name s = (case s name of None \<Rightarrow> Inl (KeyError name) | Some p \<Rightarrow> Inr p)"

definition eager_backend ::
  "bool \<Rightarrow> (nat, nat, string \<rightharpoonup> nat) artifact \<Rightarrow> string list \<Rightarrow> nat list
     \<Rightarrow> (string \<rightharpoonup> nat)
     \<Rightarrow> (exn + (nat, nat, string \<rightharpoonup> nat) artifact) \<times> (string \<rightharpoonup> nat)" where
  "eager_backend iw closure names params_and_args s =
     (case closure names params_and_args s of
        (Inl e, s') \<Rightarrow> (Inl e, s')
      | (Inr r, s') \<Rightarrow> (Inr closure, s'))"

definition toy_jit :: "(nat, nat, nat, nat, string \<rightharpoonup> nat) jit_collab" where
  "toy_jit = \<lparr> param = toy_param, unconstrained = (\<lambda>p. p), replay = (\<lambda>f params. f),
               jit_trace = eager_backend \<rparr>"

definition touch :: "string \<Rightarrow> (string \<rightharpoonup> nat) \<Rightarrow> (string \<rightharpoonup> nat)" where
  "touch name s = (if s name = None then s(name \<mapsto> 100 * length name) else s)"

definition toy_fn :: "(nat, nat, nat, string \<rightharpoonup> nat) pyro_fn" where
  "toy_fn args kwargs s =
     (let sites = [''a''] @ (if 2 \<le> length args then [''bb''] else [])
                  @ (if 10 < sum_list args + kwargs then [''ccc''] else [])
      in (Inr (sum_list args + kwargs, sites), fold touch sites s))"

text \<open>
  The states this instance goes through: a fresh world; the wrapper and the
  world after a first call with two arguments; and after a further call with
  one argument.
\<close>

definition toy_w0 :: "(string \<rightharpoonup> nat) world" where
  "toy_w0 = \<lparr> store = Map.empty, backend_calls = [] \<rparr>"

definition toy_self1 :: "(nat, nat, nat, string \<rightharpoonup> nat) compiled_function" where
  "toy_self1 = \<lparr> fn' = toy_fn, compiled = [2 \<mapsto> compiled_closure toy_jit toy_fn 0],
                 ignore_warnings = False, param_names = Some [''a'', ''bb''] \<rparr>"

definition toy_w1 :: "(string \<rightharpoonup> nat) world" where
  "toy_w1 = \<lparr> store = [''a'' \<mapsto> 100, ''bb'' \<mapsto> 200], backend_calls = [2] \<rparr>"

definition toy_self2 :: "(nat, nat, nat, string \<rightharpoonup> nat) compiled_function" where
  "toy_self2 = \<lparr> fn' = toy_fn,
                 compiled = [2 \<mapsto> compiled_closure toy_jit toy_fn 0,
                             1 \<mapsto> compiled_closure toy_jit toy_fn 0],
                 ignore_warnings = False, param_names = Some [''a''] \<rparr>"

definition toy_w2 :: "(string \<rightharpoonup> nat) world" where
  "toy_w2 = \<lparr> store = [''a'' \<mapsto> 100, ''bb'' \<mapsto> 200], backend_calls = [2, 1] \<rparr>"

text \<open>
  The same wrapped function called first with one argument and then with
  two: the wrapper and the world after each of these calls.
\<close>

definition toy_selfA :: "(nat, nat, nat, string \<rightharpoonup> nat) compiled_function" where
  "toy_selfA = \<lparr> fn' = toy_fn, compiled = [1 \<mapsto> compiled_closure toy_jit toy_fn 0],
                 ignore_warnings = False, param_names = Some [''a''] \<rparr>"

definition toy_wA :: "(string \<rightharpoonup> nat) world" where
  "toy_wA = \<lparr> store = [''a'' \<mapsto> 100], backend_calls = [1] \<rparr>"

definition toy_selfB :: "(nat, nat, nat, string \<rightharpoonup> nat) compiled_function" where
  "toy_selfB = \<lparr> fn' = toy_fn,
                 compiled = [1 \<mapsto> compiled_closure toy_jit toy_fn 0,
                             2 \<mapsto> compiled_closure toy_jit toy_fn 0],
                 ignore_warnings = False, param_names = Some [''a'', ''bb''] \<rparr>"

definition toy_wB :: "(string \<rightharpoonup> nat) world" where
  "toy_wB = \<lparr> store = [''a'' \<mapsto> 100, ''bb'' \<mapsto> 200], backend_calls = [1, 2] \<rparr>"

text \<open>A wrapped function that raises, and a backend that raises.\<close>

definition failing_fn :: "(nat, nat, nat, string \<rightharpoonup> nat) pyro_fn" where
  "failing_fn args kwargs s = (Inl (Raised ''fn''), s)"

definition failing_backend ::
  "bool \<Rightarrow> (nat, nat, string \<rightharpoonup> nat) artifact \<Rightarrow> string list \<Rightarrow> nat list
     \<Rightarrow> (string \<rightharpoonup> nat)
     \<Rightarrow> (exn + (nat, nat, string \<rightharpoonup> nat) artifact) \<times> (string \<rightharpoonup> nat)" where
  "failing_backend iw closure names params_and_args s = (Inl (Raised ''jit''), s)"

section \<open>Unfolding the examples\<close>

lemmas toy_defs =
  toy_collab_def observed_site_def latent_site_def score_site_def aux_site_def
  partial_aux_site_def param_site_def in_nodes_def entropy_term_def
  score_function_term_def entropy_sum_def

lemma toy_jit_sel:
  "param toy_jit = toy_param" "unconstrained toy_jit = (\<lambda>p. p)"
  "replay toy_jit = (\<lambda>f params. f)" "jit_trace toy_jit = eager_backend"
  by (simp_all add: toy_jit_def)

lemmas jit_defs =
  call_def first_call_def later_call_def invoke_def compiled_closure_def init_def
  toy_jit_sel toy_param_def eager_backend_def toy_fn_def touch_def numeral_2_eq_2
  toy_w0_def toy_self1_def toy_w1_def toy_self2_def toy_w2_def
  toy_selfA_def toy_wA_def toy_selfB_def toy_wB_def failing_fn_def failing_backend_def

lemma toy_first_call:
  "call toy_jit (init toy_fn False) [1, 2] 0 toy_w0 = (Inr 3, toy_self1, toy_w1)"
  by (simp add: jit_defs)

lemma toy_same_count:
  "call toy_jit toy_self1 [3, 4] 7 toy_w1 = (Inr 7, toy_self1, toy_w1)"
  by (simp add: jit_defs)

lemma toy_other_count:
  "call toy_jit toy_self1 [1] 0 toy_w1 = (Inr 1, toy_self2, toy_w2)"
  by (simp add: jit_defs)

section \<open>The estimator: loops and the loss\<close>

lemma model_sites_loop_append:
  "model_sites_loop c gt (xs @ ys) e =
     (case model_sites_loop c gt xs e of
        Inl x \<Rightarrow> Inl x
      | Inr e' \<Rightarrow> model_sites_loop c gt ys e')"
  by (induction c gt xs e rule: model_sites_loop.induct)
     (auto split: option.splits sum.splits)

text \<open>
  What \<open>loss\<close> computes when every particle returns: each iteration adds the
  particle's \<^emph>\<open>negated\<close> ELBO, divided by the number of particles, and the
  final negation turns the sum back into the plain average of the ELBOs.
\<close>

lemma loss_loop_average:
  "0 < n \<Longrightarrow> list_all2 (\<lambda>p e. elbo_of_particle c (fst p) (snd p) = Inr e) ps es \<Longrightarrow>
     loss_loop c n ps acc = Inr (acc - sum_list es / real n)"
proof (induction ps arbitrary: es acc)
  case Nil
  then show ?case by simp
next
  case (Cons p ps)
  then obtain e es' where es: "es = e # es'" "elbo_of_particle c (fst p) (snd p) = Inr e"
     "list_all2 (\<lambda>p e. elbo_of_particle c (fst p) (snd p) = Inr e) ps es'"
    by (auto simp: list_all2_Cons1)
  obtain mt gt where p: "p = (mt, gt)" by (cases p)
  show ?case using Cons.IH[OF Cons.prems(1) es(3)] es(1,2) Cons.prems(1) p
    by (simp add: differentiable_loss_particle_def diff_divide_distrib add_divide_distrib)
qed

lemma loss_is_average_elbo:
  "0 < n \<Longrightarrow> list_all2 (\<lambda>p e. elbo_of_particle c (fst p) (snd p) = Inr e) ps es \<Longrightarrow>
     loss c n ps = Inr (sum_list es / real n)"
  by (simp add: loss_def loss_loop_average)

lemma observed_site_contribution:
  "type model_site = Sample \<Longrightarrow> is_observed model_site \<Longrightarrow>
     model_sites_loop c guide_trace ((name, model_site) # rest) e =
       model_sites_loop c guide_trace rest (e + log_prob_sum model_site)"
  by simp

text \<open>
  Claim C1. \<open>loss\<close> is claimed to return the negative of the average
  per-particle ELBO. Evaluated on two particles, each a model trace with one
  observed site (log-densities \<open>-3\<close> and \<open>-5\<close>) and an empty guide trace, with
  \<open>num_particles = 2\<close>: the per-particle ELBOs are \<open>-3\<close> and \<open>-5\<close>, their
  average is \<open>-4\<close>, and \<open>loss\<close> returns \<open>-4\<close>, the average itself and not its
  negation \<open>4\<close>.
\<close>

theorem loss_two_particles_returns_average_elbo:
  "elbo_of_particle (toy_collab True) [(''obs'', observed_site (-3))] [] = Inr (-3)
   \<and> elbo_of_particle (toy_collab True) [(''obs'', observed_site (-5))] [] = Inr (-5)
   \<and> loss (toy_collab True) 2
        [([(''obs'', observed_site (-3))], []), ([(''obs'', observed_site (-5))], [])]
       = Inr (-4)"
  by (simp add: loss_def differentiable_loss_particle_def elbo_of_particle_def
        observed_site_def)

text \<open>
  Claim C2. An observed sample site adds exactly its \<open>log_prob_sum\<close> to the
  per-particle ELBO (\<open>observed_site_contribution\<close>); the claimed consequence
  is that a model trace of observed sites with an empty guide gives a loss
  equal to the negated total observed log-density. For one observed site
  with log-density \<open>x\<close>, one particle and an empty guide trace, \<open>loss\<close> returns
  \<open>x\<close> itself, whatever the collaborators are.
\<close>

theorem loss_single_observed_site_returns_log_prob_sum:
  "loss c 1 [([(name, \<lparr> type = Sample, fn = d, is_observed = True, log_prob_sum = x,
        scale = s, mask = m, score_parts = sp, infer = h \<rparr>)], [])] = Inr x"
  by (simp add: loss_def differentiable_loss_particle_def elbo_of_particle_def)

section \<open>Latent sites: analytic KL and its fallback\<close>

text \<open>
  With validation disabled nothing keeps a guide site with an identically
  zero entropy term from the fallback, and there \<open>entropy_term.sum()\<close> raises.
\<close>

lemma fallback_zero_entropy_raises:
  assumes "type model_site = Sample" and "\<not> is_observed model_site"
    and "map_of guide_trace name = Some guide_site"
    and "\<not> is_validation_enabled c"
    and "kl_divergence c (fn guide_site) (fn model_site) = Inl (NotImplementedError m)"
    and "is_identically_zero c (entropy_term (score_parts guide_site))"
  shows "model_sites_loop c guide_trace ((name, model_site) # rest) e = Inl AttributeError"
  using assms by (simp add: kl_or_fallback_def entropy_sum_def)

text \<open>
  Claim C3, as stated, says that a successful analytic KL is scaled, masked
  and subtracted, and that a KL that is not implemented is recovered from by
  the fallback. The code asserts after scaling that the value has the guide
  distribution's batch shape: in the first example the KL of the pair
  succeeds with a one-entry tensor while the guide's batch shape is \<open>[2]\<close>, and
  the particle computation ends in an assertion error with nothing
  subtracted. In the second example validation is disabled, the KL of the
  pair is not implemented and the guide site's entropy term is identically
  zero: the fallback adds nothing and the computation ends in an attribute
  error.
\<close>

theorem kl_shape_mismatch_or_zero_entropy_raises:
  "kl_divergence (toy_collab True) (fn (latent_site 2 0)) (fn (latent_site 3 (-1))) = Inr [1]
   \<and> differentiable_loss_particle (toy_collab True)
       [(''z'', latent_site 3 (-1))] [(''z'', latent_site 2 0)] = Inl AssertionError
   \<and> kl_divergence (toy_collab False) (fn (score_site 2 0)) (fn (latent_site 1 (-1)))
       = Inl (NotImplementedError [])
   \<and> differentiable_loss_particle (toy_collab False)
       [(''z'', latent_site 1 (-1))] [(''z'', score_site 2 0)] = Inl AttributeError"
  by (simp add: toy_defs differentiable_loss_particle_def elbo_of_particle_def
        kl_or_fallback_def check_fully_reparametrized_def fully_rep_def)

text \<open>
  Claim C3, amended. For a latent model sample site (not observed, with a
  guide site of the same name) at which the KL is attempted, that is, with
  validation disabled or the guide site fully reparameterized: if the
  analytic KL raises \<open>NotImplementedError\<close> and the guide site's entropy term
  is not identically zero (as it is whenever the site is fully
  reparameterized), the loop goes on to the next site with \<open>log_prob_sum\<close> of
  the model site minus the summed entropy term of the guide site added to
  the ELBO, so the signal does not reach the caller; if the KL succeeds and
  its scaled and masked value has the guide distribution's batch shape, the
  loop goes on with the sum of that value subtracted; if the KL succeeds
  with another shape, an assertion error is raised.
\<close>

theorem latent_site_kl_or_fallback:
  assumes "type model_site = Sample" and "\<not> is_observed model_site"
    and "map_of guide_trace name = Some guide_site"
    and "is_validation_enabled c \<longrightarrow> fully_rep c guide_site"
  shows "(kl_divergence c (fn guide_site) (fn model_site) = Inl (NotImplementedError m)
          \<and> \<not> is_identically_zero c (entropy_term (score_parts guide_site)) \<longrightarrow>
           model_sites_loop c guide_trace ((name, model_site) # rest) e =
             model_sites_loop c guide_trace rest
               (e + log_prob_sum model_site
                  - tensor_sum c (entropy_term (score_parts guide_site))))
       \<and> (kl_divergence c (fn guide_site) (fn model_site) = Inr kl \<and>
          shape c (scale_and_mask c kl (scale guide_site) (mask guide_site))
            = batch_shape c (fn guide_site) \<longrightarrow>
           model_sites_loop c guide_trace ((name, model_site) # rest) e =
             model_sites_loop c guide_trace rest
               (e - tensor_sum c (scale_and_mask c kl (scale guide_site) (mask guide_site))))
       \<and> (kl_divergence c (fn guide_site) (fn model_site) = Inr kl \<and>
          shape c (scale_and_mask c kl (scale guide_site) (mask guide_site))
            \<noteq> batch_shape c (fn guide_site) \<longrightarrow>
           model_sites_loop c guide_trace ((name, model_site) # rest) e = Inl AssertionError)
       \<and> (fully_rep c guide_site \<longrightarrow>
            \<not> is_identically_zero c (entropy_term (score_parts guide_site)))"
  using assms
  by (auto simp: kl_or_fallback_def check_fully_reparametrized_def entropy_sum_def
        fully_rep_def Let_def)

theorem latent_site_kl_or_fallback_witness:
  "model_sites_loop (toy_collab True) [(''z'', latent_site 2 5)]
       [(''z'', latent_site 1 (-1))] 0 = Inr (-6)
   \<and> model_sites_loop (toy_collab True) [(''z'', latent_site 2 5)]
       [(''z'', latent_site 2 (-1))] 0 = Inr (-2)
   \<and> model_sites_loop (toy_collab True) [(''z'', latent_site 2 5)]
       [(''z'', latent_site 3 (-1))] 0 = Inl AssertionError"
proof -
  let ?c = "toy_collab True" and ?g = "latent_site 2 5"
  have g: "map_of [(''z'', ?g)] ''z'' = Some ?g" by simp
  have v: "is_validation_enabled ?c \<longrightarrow> fully_rep ?c ?g"
    by (simp add: toy_defs fully_rep_def)
  have t: "type (latent_site d x) = Sample" "\<not> is_observed (latent_site d x)" for d x
    by (simp_all add: latent_site_def)
  have k1: "kl_divergence ?c (fn ?g) (fn (latent_site 1 (-1))) = Inl (NotImplementedError [])
            \<and> \<not> is_identically_zero ?c (entropy_term (score_parts ?g))"
    by (simp add: toy_defs)
  have k2: "kl_divergence ?c (fn ?g) (fn (latent_site 2 (-1))) = Inr [1, 1]
            \<and> shape ?c (scale_and_mask ?c [1, 1] (scale ?g) (mask ?g)) = batch_shape ?c (fn ?g)"
    by (simp add: toy_defs numeral_2_eq_2)
  have k3: "kl_divergence ?c (fn ?g) (fn (latent_site 3 (-1))) = Inr [1]
            \<and> shape ?c (scale_and_mask ?c [1] (scale ?g) (mask ?g)) \<noteq> batch_shape ?c (fn ?g)"
    by (simp add: toy_defs)
  note th = latent_site_kl_or_fallback [OF t g v, where rest = "[]" and e = 0]
  have "model_sites_loop ?c [(''z'', ?g)] [(''z'', latent_site 1 (-1))] 0 = Inr (-6)"
    using th [of 1 "-1" "[]" "[1]"] k1 by (simp add: toy_defs)
  moreover have "model_sites_loop ?c [(''z'', ?g)] [(''z'', latent_site 2 (-1))] 0 = Inr (-2)"
    using th [of 2 "-1" "[]" "[1, 1]"] k2 by (simp add: toy_defs)
  moreover have "model_sites_loop ?c [(''z'', ?g)] [(''z'', latent_site 3 (-1))] 0
                   = Inl AssertionError"
    using th [of 3 "-1" "[]" "[1]"] k3 by simp
  ultimately show ?thesis by simp
qed

section \<open>Latent sites: the reparameterization check\<close>

text \<open>
  Claim C4. With validation enabled, at a latent model sample site whose
  guide site is not fully reparameterized (\<open>has_rsample\<close> false, or the
  score-function term not identically zero, or the entropy term identically
  zero), the step of the loop raises the check's \<open>NotImplementedError\<close>
  whatever \<open>kl_divergence\<close> would do there, also when it would raise another
  exception: the check comes before the KL attempt and before the fallback.
  When the sites before it have been processed, this is the outcome of the
  whole per-particle computation.
\<close>

theorem not_reparametrized_raises_before_kl:
  assumes "is_validation_enabled c"
    and "type model_site = Sample" and "\<not> is_observed model_site"
    and "map_of guide_trace name = Some guide_site"
    and "\<not> has_rsample c (fn guide_site)
         \<or> \<not> is_identically_zero c (score_function_term (score_parts guide_site))
         \<or> is_identically_zero c (entropy_term (score_parts guide_site))"
  shows "model_sites_loop (c\<lparr>kl_divergence := kl\<rparr>) guide_trace ((name, model_site) # rest) e
           = Inl (NotImplementedError reparam_msg)
       \<and> (model_sites_loop c guide_trace pre 0 = Inr e' \<longrightarrow>
           differentiable_loss_particle c (pre @ (name, model_site) # rest) guide_trace
             = Inl (NotImplementedError reparam_msg))"
  using assms
  by (auto simp: check_fully_reparametrized_def fully_rep_def differentiable_loss_particle_def
       elbo_of_particle_def model_sites_loop_append)

theorem not_reparametrized_raises_before_kl_witness:
  "kl_divergence (toy_collab True) (fn (score_site 1 0)) (fn (latent_site 0 (-1)))
     = Inl (Raised ''kl'')
   \<and> differentiable_loss_particle (toy_collab True)
       [(''x'', observed_site (-3)), (''z'', latent_site 0 (-1))] [(''z'', score_site 1 0)]
     = Inl (NotImplementedError reparam_msg)"
proof -
  let ?c = "toy_collab True" and ?g = "score_site 1 0" and ?m = "latent_site 0 (-1)"
  have v: "is_validation_enabled ?c" by (simp add: toy_defs)
  have t: "type ?m = Sample" "\<not> is_observed ?m" by (simp_all add: toy_defs)
  have g: "map_of [(''z'', ?g)] ''z'' = Some ?g" by simp
  have n: "\<not> has_rsample ?c (fn ?g)
         \<or> \<not> is_identically_zero ?c (score_function_term (score_parts ?g))
         \<or> is_identically_zero ?c (entropy_term (score_parts ?g))"
    by (simp add: toy_defs)
  have p: "model_sites_loop ?c [(''z'', ?g)] [(''x'', observed_site (-3))] 0 = Inr (-3)"
    by (simp add: toy_defs)
  from not_reparametrized_raises_before_kl [OF v t g n,
      of "kl_divergence ?c" "[]" 0 "[(''x'', observed_site (-3))]" "-3"] p
  show ?thesis by (simp add: toy_defs)
qed

section \<open>Auxiliary guide sites\<close>

text \<open>
  With validation disabled an auxiliary site with an identically zero
  entropy term is not checked, and \<open>entropy_term.sum()\<close> raises.
\<close>

lemma auxiliary_zero_entropy_raises:
  assumes "type guide_site = Sample" and "\<not> in_nodes name model_trace"
    and "infer guide_site ''is_auxiliary'' = Some True"
    and "\<not> is_validation_enabled c"
    and "is_identically_zero c (entropy_term (score_parts guide_site))"
  shows "guide_sites_loop c model_trace ((name, guide_site) # rest) e = Inl AttributeError"
  using assms by (simp add: entropy_sum_def)




section \<open>The mean-field ordering check\<close>

text \<open>
  Claim C6, as stated, is about every pair of traces whose common site names
  come in different relative orders. The check compares sample sites only:
  below, the model trace lists \<open>p\<close> before \<open>z\<close> and the guide trace \<open>z\<close> before
  \<open>p\<close>, where \<open>p\<close> is a param site of both, and no warning is emitted.
\<close>

theorem param_order_mismatch_no_warning:
  "map fst [(''p'', param_site), (''z'', latent_site 1 0)] = [''p'', ''z'']
   \<and> map fst [(''z'', latent_site 1 0), (''p'', param_site)] = [''z'', ''p'']
   \<and> check_mean_field_requirement [(''p'', param_site), (''z'', latent_site 1 0)]
        [(''z'', latent_site 1 0), (''p'', param_site)] = Inr []"
  by (simp add: check_mean_field_requirement_def sample_sites_in_def toy_defs)

text \<open>
  A name that is a sample site of one trace and another kind of site of the
  other makes the two name sets differ, and the check's assertion fails.
\<close>

lemma sample_param_clash_fails_assertion:
  "check_mean_field_requirement [(''a'', latent_site 1 0), (''b'', latent_site 1 0)]
        [(''b'', latent_site 1 0), (''a'', param_site)] = Inl AssertionError"
  by (simp add: check_mean_field_requirement_def sample_sites_in_def toy_defs)

text \<open>
  Claim C6, amended. When the sample sites of the model trace that occur in
  the guide trace and the sample sites of the guide trace that occur in the
  model trace are the same names listed in different orders, the check emits
  one warning and raises nothing, and with validation enabled \<open>_get_trace\<close>
  returns the pair of traces unchanged together with that warning.
\<close>

theorem ordering_mismatch_warns:
  assumes "set (sample_sites_in model_trace guide_trace)
             = set (sample_sites_in guide_trace model_trace)"
    and "sample_sites_in model_trace guide_trace \<noteq> sample_sites_in guide_trace model_trace"
  shows "check_mean_field_requirement model_trace guide_trace =
           Inr [MeanFieldWarning (sample_sites_in model_trace guide_trace)
                  (sample_sites_in guide_trace model_trace)]
       \<and> (is_validation_enabled c \<longrightarrow> get_trace c (model_trace, guide_trace) =
           Inr ([MeanFieldWarning (sample_sites_in model_trace guide_trace)
                  (sample_sites_in guide_trace model_trace)], model_trace, guide_trace))"
  using assms by (auto simp: check_mean_field_requirement_def get_trace_def Let_def)

theorem ordering_mismatch_warns_witness:
  "get_trace (toy_collab True)
     ([(''a'', latent_site 1 0), (''b'', latent_site 1 0)],
      [(''b'', latent_site 1 0), (''a'', latent_site 1 0)])
   = Inr ([MeanFieldWarning [''a'', ''b''] [''b'', ''a'']],
          [(''a'', latent_site 1 0), (''b'', latent_site 1 0)],
          [(''b'', latent_site 1 0), (''a'', latent_site 1 0)])"
proof -
  let ?m = "[(''a'', latent_site 1 0), (''b'', latent_site 1 0)] :: (nat, real list) trace"
  let ?g = "[(''b'', latent_site 1 0), (''a'', latent_site 1 0)] :: (nat, real list) trace"
  have m: "sample_sites_in ?m ?g = [''a'', ''b'']" by (simp add: sample_sites_in_def toy_defs)
  have g: "sample_sites_in ?g ?m = [''b'', ''a'']" by (simp add: sample_sites_in_def toy_defs)
  have s: "set (sample_sites_in ?m ?g) = set (sample_sites_in ?g ?m)"
    unfolding m g by auto
  have d: "sample_sites_in ?m ?g \<noteq> sample_sites_in ?g ?m"
    unfolding m g by simp
  from ordering_mismatch_warns [OF s d, of "toy_collab True"] m g
  show ?thesis by (simp add: toy_collab_def)
qed

section \<open>The wrapper: what a call does to the cache\<close>

lemma later_call_state:
  assumes "compiled self (length args) \<noteq> None"
    and "call c self args kwargs w = (res, self', w')"
  shows "self' = self \<and> backend_calls w' = backend_calls w"
  using assms
  by (auto simp: call_def later_call_def invoke_def split: option.splits sum.splits prod.splits)

lemma first_call_state:
  assumes "compiled self (length args) = None"
    and "call c self args kwargs w = (res, self', w')"
  shows "fn' self' = fn' self \<and> ignore_warnings self' = ignore_warnings self
     \<and> (compiled self' = compiled self
        \<or> (\<exists>art names params_and_args s s'.
              jit_trace c (ignore_warnings self) (compiled_closure c (fn' self) kwargs)
                names params_and_args s = (Inr art, s')
              \<and> compiled self' = (compiled self)(length args \<mapsto> art)
              \<and> backend_calls w' = backend_calls w @ [length args]))"
proof (cases "first_call c self args kwargs w")
  case (fields r self1 w1)
  have inv: "invoke self1 n pa w1 = (res, self', w') \<Longrightarrow>
               self' = self1 \<and> backend_calls w' = backend_calls w1" for n pa
    by (auto simp: invoke_def split: option.splits sum.splits prod.splits)
  have st: "self' = self1 \<and> backend_calls w' = backend_calls w1"
    using assms fields inv by (cases r) (auto simp: call_def)
  show ?thesis
    using fields st
    by (auto simp: first_call_def Let_def split: sum.splits prod.splits) blast
qed

lemma call_cache_grows:
  assumes "call c self args kwargs w = (res, self', w')"
  shows "compiled self \<subseteq>\<^sub>m compiled self'
       \<and> dom (compiled self') \<subseteq> insert (length args) (dom (compiled self))"
proof (cases "compiled self (length args) = None")
  case True
  from first_call_state [OF True assms] show ?thesis
    by (auto simp: map_le_def True)
next
  case False
  from later_call_state [OF False assms] show ?thesis by auto
qed

lemma calls_cache_grows:
  "calls c self w cs = (ress, self', w') \<Longrightarrow>
     compiled self \<subseteq>\<^sub>m compiled self'
     \<and> dom (compiled self') \<subseteq> dom (compiled self) \<union> (\<lambda>x. length (fst x)) ` set cs"
proof (induction cs arbitrary: self w ress)
  case Nil
  then show ?case by simp
next
  case (Cons x cs)
  obtain args kwargs upd where x: "x = (args, kwargs, upd)" by (cases x)
  obtain res self1 w1
    where c1: "call c self args kwargs (w\<lparr>store := upd (store w)\<rparr>) = (res, self1, w1)"
    by (cases "call c self args kwargs (w\<lparr>store := upd (store w)\<rparr>)")
  obtain ress1 where c2: "calls c self1 w1 cs = (ress1, self', w')"
    using Cons.prems x c1 by (auto split: prod.splits)
  from call_cache_grows [OF c1] Cons.IH [OF c2]
  have "compiled self \<subseteq>\<^sub>m compiled self'"
    and "dom (compiled self')
           \<subseteq> dom (compiled self) \<union> insert (length args) ((\<lambda>x. length (fst x)) ` set cs)"
    by (blast intro: map_le_trans)+
  then show ?case unfolding x by simp
qed

lemma invoke_state:
  "invoke self1 n pa w1 = (res, self', w') \<Longrightarrow>
     self' = self1 \<and> backend_calls w' = backend_calls w1"
  by (auto simp: invoke_def split: option.splits sum.splits prod.splits)

text \<open>
  A call with a count that is new to the cache and is in the cache
  afterwards went through every step of the first branch: the capture
  returned, the parameters were fetched, and the backend, applied once to the
  closure holding this call's keyword arguments, returned the artifact that
  is now cached.
\<close>

lemma first_call_compiles:
  assumes "compiled self (length args) = None"
    and "call c self args kwargs w = (res, self', w')"
    and "compiled self' (length args) \<noteq> None"
  shows "\<exists>r sites s1 ups art s2.
           fn' self args kwargs (store w) = (Inr (r, sites), s1)
         \<and> unconstrained_params c (remdups sites) s1 = Inr ups
         \<and> jit_trace c (ignore_warnings self) (compiled_closure c (fn' self) kwargs)
              (remdups sites) (ups @ args) s1 = (Inr art, s2)
         \<and> self' = self\<lparr>param_names := Some (remdups sites),
                         compiled := (compiled self)(length args \<mapsto> art)\<rparr>
         \<and> backend_calls w' = backend_calls w @ [length args]"
proof (cases "first_call c self args kwargs w")
  case (fields r self1 w1)
  have st: "self' = self1 \<and> backend_calls w' = backend_calls w1"
    using assms(1,2) fields invoke_state [of self1 _ _ w1 res self' w']
    by (cases r) (auto simp: call_def)
  show ?thesis
    using fields st assms(1,3)
    by (auto simp: first_call_def Let_def split: sum.splits prod.splits)
qed

text \<open>A call with a cached count runs the cached artifact.\<close>

lemma later_call_runs_artifact:
  assumes "compiled self (length args) = Some art"
    and "param_names self = Some names"
  shows "call c self args kwargs w =
           (case unconstrained_params c names (store w) of
              Inl e \<Rightarrow> (Inl e, self, w)
            | Inr ups \<Rightarrow>
                (case art names (ups @ args) (store w) of
                   (Inl e, s') \<Rightarrow> (Inl e, self, w\<lparr>store := s'\<rparr>)
                 | (Inr (ret, captured), s') \<Rightarrow>
                     (case find (\<lambda>name. name \<notin> set names) captured of
                        Some name \<Rightarrow>
                          (Inl (NotImplementedError (new_param_msg @ name)), self,
                           w\<lparr>store := s'\<rparr>)
                      | None \<Rightarrow> (Inr ret, self, w\<lparr>store := s'\<rparr>))))"
  using assms
  by (auto simp: call_def later_call_def invoke_def split: option.splits sum.splits prod.splits)

text \<open>
  Claim C7, as stated, has any two calls with the same argument count invoke
  the backend exactly once. A cache entry is stored only after the backend
  has returned: when the wrapped function raises during the parameter
  capture, two calls with two arguments never reach the backend and leave
  the wrapper as it was; when the backend raises, each of the two calls
  invokes it, and the log counts two invocations.
\<close>

theorem failed_compilation_not_once:
  "calls toy_jit (init failing_fn False) toy_w0 [([1, 2], 0, id), ([1, 2], 0, id)]
     = ([Inl (Raised ''fn''), Inl (Raised ''fn'')], init failing_fn False, toy_w0)
   \<and> backend_calls toy_w0 = []
   \<and> backend_calls (snd (snd (calls (toy_jit\<lparr>jit_trace := failing_backend\<rparr>)
        (init toy_fn False) toy_w0 [([1, 2], 0, id), ([1, 2], 0, id)]))) = [2, 2]"
  by (simp add: jit_defs toy_jit_def)

text \<open>
  Claim C7, amended. Take a first call with an argument count that is not yet
  in the cache and whose compilation succeeds (the count is in the cache
  afterwards), and a second call, in whatever state the store then is. The
  first call applies the backend once, to the closure built from that call,
  with the captured names and the fetched parameters followed by the
  arguments as example inputs, and caches the artifact the backend returns.
  If the second call has the same count, it does not invoke the backend,
  leaves the wrapper as it is, and its outcome is that of running the cached
  artifact on the freshly fetched parameters followed by its own arguments.
  If it has another count, new to the cache and compiled with success, it
  applies the backend once more, to the closure built from the second call,
  and the cache has exactly the two new entries beside the old ones. No call
  removes or replaces an entry; over any sequence of calls the old entries
  stay, and the only counts added are counts that were called.
\<close>

theorem compile_once_per_argument_count:
  assumes "compiled self (length args1) = None"
    and "call c self args1 kwargs1 w = (res1, self1, w1)"
    and "compiled self1 (length args1) \<noteq> None"
    and "call c self1 args2 kwargs2 w1' = (res2, self2, w2)"
  shows "(\<exists>r sites s1 ups art s2.
            fn' self args1 kwargs1 (store w) = (Inr (r, sites), s1)
          \<and> unconstrained_params c (remdups sites) s1 = Inr ups
          \<and> jit_trace c (ignore_warnings self) (compiled_closure c (fn' self) kwargs1)
               (remdups sites) (ups @ args1) s1 = (Inr art, s2)
          \<and> self1 = self\<lparr>param_names := Some (remdups sites),
                          compiled := (compiled self)(length args1 \<mapsto> art)\<rparr>
          \<and> backend_calls w1 = backend_calls w @ [length args1]
          \<and> (length args2 = length args1 \<longrightarrow>
               backend_calls w2 = backend_calls w1' \<and> self2 = self1
               \<and> (res2, self2, w2) =
                   (case unconstrained_params c (remdups sites) (store w1') of
                      Inl e \<Rightarrow> (Inl e, self1, w1')
                    | Inr ups2 \<Rightarrow>
                        (case art (remdups sites) (ups2 @ args2) (store w1') of
                           (Inl e, s') \<Rightarrow> (Inl e, self1, w1'\<lparr>store := s'\<rparr>)
                         | (Inr (ret, captured), s') \<Rightarrow>
                             (case find (\<lambda>name. name \<notin> set (remdups sites)) captured of
                                Some name \<Rightarrow>
                                  (Inl (NotImplementedError (new_param_msg @ name)), self1,
                                   w1'\<lparr>store := s'\<rparr>)
                              | None \<Rightarrow> (Inr ret, self1, w1'\<lparr>store := s'\<rparr>))))))
       \<and> (length args2 \<noteq> length args1 \<and> compiled self (length args2) = None
            \<and> compiled self2 (length args2) \<noteq> None \<longrightarrow>
            backend_calls w2 = backend_calls w1' @ [length args2]
            \<and> dom (compiled self2) = dom (compiled self) \<union> {length args1, length args2}
            \<and> (\<exists>r sites s1 ups art s2.
                  fn' self args2 kwargs2 (store w1') = (Inr (r, sites), s1)
                \<and> unconstrained_params c (remdups sites) s1 = Inr ups
                \<and> jit_trace c (ignore_warnings self) (compiled_closure c (fn' self) kwargs2)
                     (remdups sites) (ups @ args2) s1 = (Inr art, s2)
                \<and> compiled self2 = (compiled self1)(length args2 \<mapsto> art)))
       \<and> compiled self \<subseteq>\<^sub>m compiled self1 \<and> compiled self1 \<subseteq>\<^sub>m compiled self2
       \<and> (\<forall>cs ress self' w'. calls c self w cs = (ress, self', w') \<longrightarrow>
            compiled self \<subseteq>\<^sub>m compiled self'
            \<and> dom (compiled self') \<subseteq> dom (compiled self) \<union> (\<lambda>x. length (fst x)) ` set cs)"
proof -
  from first_call_compiles [OF assms(1,2,3)]
  obtain r sites s1 ups art s2 where
    f: "fn' self args1 kwargs1 (store w) = (Inr (r, sites), s1)"
       "unconstrained_params c (remdups sites) s1 = Inr ups"
       "jit_trace c (ignore_warnings self) (compiled_closure c (fn' self) kwargs1)
          (remdups sites) (ups @ args1) s1 = (Inr art, s2)"
    and s: "self1 = self\<lparr>param_names := Some (remdups sites),
                           compiled := (compiled self)(length args1 \<mapsto> art)\<rparr>"
    and b: "backend_calls w1 = backend_calls w @ [length args1]"
    by blast
  have same: "backend_calls w2 = backend_calls w1' \<and> self2 = self1
       \<and> (res2, self2, w2) =
           (case unconstrained_params c (remdups sites) (store w1') of
              Inl e \<Rightarrow> (Inl e, self1, w1')
            | Inr ups2 \<Rightarrow>
                (case art (remdups sites) (ups2 @ args2) (store w1') of
                   (Inl e, s') \<Rightarrow> (Inl e, self1, w1'\<lparr>store := s'\<rparr>)
                 | (Inr (ret, captured), s') \<Rightarrow>
                     (case find (\<lambda>name. name \<notin> set (remdups sites)) captured of
                        Some name \<Rightarrow>
                          (Inl (NotImplementedError (new_param_msg @ name)), self1,
                           w1'\<lparr>store := s'\<rparr>)
                      | None \<Rightarrow> (Inr ret, self1, w1'\<lparr>store := s'\<rparr>))))"
    if l: "length args2 = length args1"
  proof -
    have a: "compiled self1 (length args2) = Some art" using s l by simp
    have n: "param_names self1 = Some (remdups sites)" using s by simp
    from a have "compiled self1 (length args2) \<noteq> None" by simp
    from later_call_state [OF this assms(4)]
      later_call_runs_artifact [OF a n, of c kwargs2 w1'] assms(4)
    show ?thesis by simp
  qed
  have other: "backend_calls w2 = backend_calls w1' @ [length args2]
            \<and> dom (compiled self2) = dom (compiled self) \<union> {length args1, length args2}
            \<and> (\<exists>r sites s1 ups art s2.
                  fn' self args2 kwargs2 (store w1') = (Inr (r, sites), s1)
                \<and> unconstrained_params c (remdups sites) s1 = Inr ups
                \<and> jit_trace c (ignore_warnings self) (compiled_closure c (fn' self) kwargs2)
                     (remdups sites) (ups @ args2) s1 = (Inr art, s2)
                \<and> compiled self2 = (compiled self1)(length args2 \<mapsto> art))"
    if "length args2 \<noteq> length args1" "compiled self (length args2) = None"
       "compiled self2 (length args2) \<noteq> None"
  proof -
    have n: "compiled self1 (length args2) = None" using that s by simp
    have e: "fn' self1 = fn' self" "ignore_warnings self1 = ignore_warnings self"
      using s by simp_all
    from first_call_compiles [OF n assms(4) that(3)]
    obtain r' sites' s1' ups' art' s2' where
      f': "fn' self1 args2 kwargs2 (store w1') = (Inr (r', sites'), s1')"
         "unconstrained_params c (remdups sites') s1' = Inr ups'"
         "jit_trace c (ignore_warnings self1) (compiled_closure c (fn' self1) kwargs2)
            (remdups sites') (ups' @ args2) s1' = (Inr art', s2')"
      and s': "self2 = self1\<lparr>param_names := Some (remdups sites'),
                               compiled := (compiled self1)(length args2 \<mapsto> art')\<rparr>"
      and b': "backend_calls w2 = backend_calls w1' @ [length args2]"
      by blast
    have d: "dom (compiled self2) = dom (compiled self) \<union> {length args1, length args2}"
      using s s' by auto
    have c2: "compiled self2 = (compiled self1)(length args2 \<mapsto> art')" using s' by simp
    from f' [unfolded e] b' d c2 show ?thesis by blast
  qed
  from call_cache_grows [OF assms(2)] call_cache_grows [OF assms(4)]
  have g: "compiled self \<subseteq>\<^sub>m compiled self1 \<and> compiled self1 \<subseteq>\<^sub>m compiled self2" by simp
  have life: "\<forall>cs ress self' w'. calls c self w cs = (ress, self', w') \<longrightarrow>
            compiled self \<subseteq>\<^sub>m compiled self'
            \<and> dom (compiled self') \<subseteq> dom (compiled self) \<union> (\<lambda>x. length (fst x)) ` set cs"
    using calls_cache_grows [of c self w] by blast
  from f s b same have first: "\<exists>r sites s1 ups art s2.
            fn' self args1 kwargs1 (store w) = (Inr (r, sites), s1)
          \<and> unconstrained_params c (remdups sites) s1 = Inr ups
          \<and> jit_trace c (ignore_warnings self) (compiled_closure c (fn' self) kwargs1)
               (remdups sites) (ups @ args1) s1 = (Inr art, s2)
          \<and> self1 = self\<lparr>param_names := Some (remdups sites),
                          compiled := (compiled self)(length args1 \<mapsto> art)\<rparr>
          \<and> backend_calls w1 = backend_calls w @ [length args1]
          \<and> (length args2 = length args1 \<longrightarrow>
               backend_calls w2 = backend_calls w1' \<and> self2 = self1
               \<and> (res2, self2, w2) =
                   (case unconstrained_params c (remdups sites) (store w1') of
                      Inl e \<Rightarrow> (Inl e, self1, w1')
                    | Inr ups2 \<Rightarrow>
                        (case art (remdups sites) (ups2 @ args2) (store w1') of
                           (Inl e, s') \<Rightarrow> (Inl e, self1, w1'\<lparr>store := s'\<rparr>)
                         | (Inr (ret, captured), s') \<Rightarrow>
                             (case find (\<lambda>name. name \<notin> set (remdups sites)) captured of
                                Some name \<Rightarrow>
                                  (Inl (NotImplementedError (new_param_msg @ name)), self1,
                                   w1'\<lparr>store := s'\<rparr>)
                              | None \<Rightarrow> (Inr ret, self1, w1'\<lparr>store := s'\<rparr>)))))"
    by blast
  from first other g life show ?thesis by blast
qed

theorem compile_once_per_argument_count_witness:
  "backend_calls toy_w1 = [2]
   \<and> backend_calls (snd (snd (call toy_jit toy_self1 [3, 4] 7 toy_w1))) = [2]
   \<and> backend_calls (snd (snd (call toy_jit toy_self1 [1] 0 toy_w1))) = [2, 1]
   \<and> dom (compiled (fst (snd (call toy_jit toy_self1 [1] 0 toy_w1)))) = {1, 2}"
proof -
  have h1: "compiled (init toy_fn False) (length [1, 2 :: nat]) = None"
    by (simp add: init_def)
  have h3: "compiled toy_self1 (length [1, 2 :: nat]) \<noteq> None"
    by (simp add: toy_self1_def)
  note th = compile_once_per_argument_count [OF h1 toy_first_call h3]
  have n: "length [1 :: nat] \<noteq> length [1, 2 :: nat]
           \<and> compiled (init toy_fn False) (length [1 :: nat]) = None
           \<and> compiled toy_self2 (length [1 :: nat]) \<noteq> None"
    by (simp add: init_def toy_self2_def)
  have s: "snd (snd (call toy_jit toy_self1 [3, 4] 7 toy_w1)) = toy_w1"
    by (simp only: toy_same_count snd_conv)
  have o: "snd (snd (call toy_jit toy_self1 [1] 0 toy_w1)) = toy_w2"
          "fst (snd (call toy_jit toy_self1 [1] 0 toy_w1)) = toy_self2"
    by (simp_all only: toy_other_count fst_conv snd_conv)
  from th [OF toy_same_count]
  have A: "backend_calls toy_w1 = backend_calls toy_w0 @ [length [1, 2 :: nat]]"
    by blast
  from th [OF toy_other_count] n
  have B: "backend_calls toy_w2 = backend_calls toy_w1 @ [length [1 :: nat]]
         \<and> dom (compiled toy_self2)
             = dom (compiled (init toy_fn False)) \<union> {length [1, 2 :: nat], length [1 :: nat]}"
    by blast
  show ?thesis
    unfolding s o using A B by (simp add: toy_w0_def init_def insert_commute numeral_2_eq_2)
qed

section \<open>The wrapper: new parameters after compilation\<close>

text \<open>
  Claim C8, as stated, checks the captured names against the set discovered
  when the argument count was compiled. The wrapper checks them against its
  one list \<open>self._param_names\<close>, which every compilation overwrites. A first
  call with one argument discovers \<open>a\<close>; a call with two arguments discovers
  \<open>a\<close> and \<open>bb\<close>; a further call with one argument runs the artifact cached
  for one argument, the capture records \<open>bb\<close>, which was not discovered when
  that count was compiled, and the call returns its result.
\<close>

theorem new_param_of_other_count_accepted:
  "call toy_jit (init toy_fn False) [1] 0 toy_w0 = (Inr 1, toy_selfA, toy_wA)
   \<and> param_names toy_selfA = Some [''a'']
   \<and> call toy_jit toy_selfA [1, 2] 0 toy_wA = (Inr 3, toy_selfB, toy_wB)
   \<and> compiled toy_selfB (length [1 :: nat]) = Some (compiled_closure toy_jit toy_fn 0)
   \<and> compiled_closure toy_jit toy_fn 0 [''a'', ''bb''] ([100, 200] @ [1]) (store toy_wB)
       = (Inr (1, [''a'', ''bb'', ''a'']), store toy_wB)
   \<and> ''bb'' \<notin> set [''a'']
   \<and> call toy_jit toy_selfB [1] 0 toy_wB = (Inr 1, toy_selfB, toy_wB)"
  by (simp add: jit_defs)

text \<open>
  Claim C8, amended. On a call with an argument count that is already in the
  cache, when the parameters are fetched and the cached artifact returns, if
  the parameter capture around it recorded a name that is not in the
  wrapper's current list \<open>self._param_names\<close> (the names discovered by the
  most recent compiling call, whatever its argument count, which are the
  names that the block around the capture hides), the call raises
  \<open>NotImplementedError\<close> naming such a parameter and does not return the
  artifact's result. The wrapper is left as it was.
\<close>

theorem new_param_after_compilation_raises:
  assumes "compiled self (length args) = Some art"
    and "param_names self = Some names"
    and "unconstrained_params c names (store w) = Inr ups"
    and "art names (ups @ args) (store w) = (Inr (ret, sites), s')"
    and "\<not> set sites \<subseteq> set names"
  shows "\<exists>name. name \<in> set sites \<and> name \<notin> set names
           \<and> call c self args kwargs w =
               (Inl (NotImplementedError (new_param_msg @ name)), self, w\<lparr>store := s'\<rparr>)"
proof -
  from assms(5) obtain name where f: "find (\<lambda>name. name \<notin> set names) sites = Some name"
    by (cases "find (\<lambda>name. name \<notin> set names) sites") (auto simp: find_None_iff)
  then have "name \<in> set sites \<and> name \<notin> set names"
    by (auto simp: find_Some_iff)
  moreover have "call c self args kwargs w =
               (Inl (NotImplementedError (new_param_msg @ name)), self, w\<lparr>store := s'\<rparr>)"
    using assms(1-4) f by (simp add: call_def later_call_def invoke_def)
  ultimately show ?thesis by blast
qed

theorem new_param_after_compilation_raises_witness:
  "fst (call toy_jit toy_self1 [5, 6] 0 toy_w1)
     = Inl (NotImplementedError (new_param_msg @ ''ccc''))"
proof -
  let ?art = "compiled_closure toy_jit toy_fn 0"
  let ?names = "[''a'', ''bb'']"
  let ?sites = "[''a'', ''bb'', ''a'', ''bb'', ''ccc'']"
  let ?s' = "[''a'' \<mapsto> 100, ''bb'' \<mapsto> 200, ''ccc'' \<mapsto> 300] :: string \<rightharpoonup> nat"
  have h1: "compiled toy_self1 (length [5, 6 :: nat]) = Some ?art"
    by (simp add: toy_self1_def)
  have h2: "param_names toy_self1 = Some ?names"
    by (simp add: toy_self1_def)
  have h3: "unconstrained_params toy_jit ?names (store toy_w1) = Inr [100, 200]"
    by (simp add: toy_jit_sel toy_param_def toy_w1_def)
  have h4: "?art ?names ([100, 200] @ [5, 6]) (store toy_w1) = (Inr (11, ?sites), ?s')"
    by (simp add: jit_defs)
  have h5: "\<not> set ?sites \<subseteq> set ?names" by simp
  from new_param_after_compilation_raises [OF h1 h2 h3 h4 h5, of 0]
  obtain name where n: "name \<in> set ?sites" "name \<notin> set ?names"
    and c: "call toy_jit toy_self1 [5, 6] 0 toy_w1 =
              (Inl (NotImplementedError (new_param_msg @ name)), toy_self1,
               toy_w1\<lparr>store := ?s'\<rparr>)"
    by blast
  from n have "name = ''ccc''" by auto
  with c show ?thesis by simp
qed

section \<open>The wrapper: one name list for all argument counts\<close>

text \<open>
  The instance after a call with two arguments and one with a single
  argument: the name list is that of the single-argument call, and a further
  call with two arguments reports \<open>bb\<close>, which the two-argument compilation
  had discovered, as a new parameter.
\<close>

lemma toy_stale_names:
  "call toy_jit toy_self2 [1, 2] 0 toy_w2 =
     (Inl (NotImplementedError (new_param_msg @ ''bb'')), toy_self2, toy_w2)"
  by (simp add: jit_defs)

text \<open>
  Claim C9. The wrapper has one field \<open>param_names\<close>. A call with a count
  that is not in the cache, once its parameter capture has returned the
  sites, sets that field to the names just captured, whatever it held and
  whether or not the rest of the call succeeds; the entries of the counts
  compiled before stay in the cache. Every later call with such a count
  fetches the parameters of the new list, passes them with its arguments to
  the artifact compiled for that count, hands the artifact the new list (by
  which the closure splits its inputs), and checks the captured names against
  the new list.
\<close>

theorem param_names_shared_between_counts:
  assumes "compiled self (length argsB) = None"
    and "fn' self argsB kwargsB (store w) = (Inr (r, sites), s1)"
    and "call c self argsB kwargsB w = (resB, selfB, wB)"
  shows "param_names selfB = Some (remdups sites)
       \<and> (\<forall>args art kwargs w'. compiled self (length args) = Some art \<longrightarrow>
            compiled selfB (length args) = Some art
            \<and> call c selfB args kwargs w' =
                (case unconstrained_params c (remdups sites) (store w') of
                   Inl e \<Rightarrow> (Inl e, selfB, w')
                 | Inr ups \<Rightarrow>
                     (case art (remdups sites) (ups @ args) (store w') of
                        (Inl e, s') \<Rightarrow> (Inl e, selfB, w'\<lparr>store := s'\<rparr>)
                      | (Inr (ret, captured), s') \<Rightarrow>
                          (case find (\<lambda>name. name \<notin> set (remdups sites)) captured of
                             Some name \<Rightarrow>
                               (Inl (NotImplementedError (new_param_msg @ name)), selfB,
                                w'\<lparr>store := s'\<rparr>)
                           | None \<Rightarrow> (Inr ret, selfB, w'\<lparr>store := s'\<rparr>)))))"
proof -
  have pn: "param_names selfB = Some (remdups sites)"
    using assms
    by (auto simp: call_def first_call_def invoke_def Let_def
          split: option.splits sum.splits prod.splits)
  have keep: "compiled selfB (length args) = Some art"
    if "compiled self (length args) = Some art" for args :: "'a list" and art
    using call_cache_grows [OF assms(3)] that by (auto simp: map_le_def dom_def)
  show ?thesis
    using pn keep
    by (auto simp: call_def later_call_def invoke_def split: option.splits sum.splits prod.splits)
qed

theorem param_names_shared_between_counts_witness:
  "param_names toy_self1 = Some [''a'', ''bb'']
   \<and> param_names toy_self2 = Some [''a'']
   \<and> call toy_jit toy_self2 [1, 2] 0 toy_w2 =
       (Inl (NotImplementedError (new_param_msg @ ''bb'')), toy_self2, toy_w2)"
proof -
  let ?art = "compiled_closure toy_jit toy_fn 0"
  have h1: "compiled toy_self1 (length [1 :: nat]) = None"
    by (simp add: toy_self1_def)
  have h2: "fn' toy_self1 [1] 0 (store toy_w1) = (Inr (1, [''a'']), store toy_w1)"
    by (simp add: toy_self1_def toy_fn_def touch_def toy_w1_def)
  have a: "compiled toy_self1 (length [1, 2 :: nat]) = Some ?art"
    by (simp add: toy_self1_def)
  note th = param_names_shared_between_counts [OF h1 h2 toy_other_count]
  from th have p: "param_names toy_self2 = Some (remdups [''a''])" by blast
  from th a have
    "call toy_jit toy_self2 [1, 2] 0 toy_w2 =
       (case unconstrained_params toy_jit (remdups [''a'']) (store toy_w2) of
          Inl e \<Rightarrow> (Inl e, toy_self2, toy_w2)
        | Inr ups \<Rightarrow>
            (case ?art (remdups [''a'']) (ups @ [1, 2]) (store toy_w2) of
               (Inl e, s') \<Rightarrow> (Inl e, toy_self2, toy_w2\<lparr>store := s'\<rparr>)
             | (Inr (ret, captured), s') \<Rightarrow>
                 (case find (\<lambda>name. name \<notin> set (remdups [''a''])) captured of
                    Some name \<Rightarrow>
                      (Inl (NotImplementedError (new_param_msg @ name)), toy_self2,
                       toy_w2\<lparr>store := s'\<rparr>)
                  | None \<Rightarrow> (Inr ret, toy_self2, toy_w2\<lparr>store := s'\<rparr>))))"
    by blast
  also have "\<dots> = (Inl (NotImplementedError (new_param_msg @ ''bb'')), toy_self2, toy_w2)"
    by (simp add: toy_jit_sel toy_param_def toy_w2_def compiled_closure_def toy_fn_def
          touch_def)
  finally have c: "call toy_jit toy_self2 [1, 2] 0 toy_w2 =
       (Inl (NotImplementedError (new_param_msg @ ''bb'')), toy_self2, toy_w2)" .
  from p c show ?thesis by (simp add: toy_self1_def)
qed

section \<open>The wrapper: keyword arguments of later calls\<close>

text \<open>
  Claim C10. After a call that compiled an argument count, the artifact in
  the cache is what the backend made of the closure that holds that call's
  keyword arguments. Every call with that count gives the same outcome
  whatever keyword arguments it is given: they reach neither the artifact,
  which gets positional values only, nor the closure, which passes the
  keyword arguments it holds to the replayed function.
\<close>

theorem kwargs_of_compiled_count_ignored:
  assumes "compiled self (length args0) = None"
    and "call c self args0 kwargs0 w = (res0, self1, w1)"
    and "compiled self1 (length args0) = Some art"
  shows "(\<exists>names params_and_args s s'.
            jit_trace c (ignore_warnings self) (compiled_closure c (fn' self) kwargs0)
              names params_and_args s = (Inr art, s'))
       \<and> (\<forall>args kwargs kwargs' w'. length args = length args0 \<longrightarrow>
            call c self1 args kwargs w' = call c self1 args kwargs' w')
       \<and> (\<forall>names params_and_args s constrained_params.
            constrain c (zip names (take (length names) params_and_args)) s Map.empty
              = Inr constrained_params \<longrightarrow>
            compiled_closure c (fn' self) kwargs0 names params_and_args s =
              (case replay c (fn' self) constrained_params
                      (drop (length names) params_and_args) kwargs0 s of
                 (Inl e, s') \<Rightarrow> (Inl e, s')
               | (Inr (ret, sites), s') \<Rightarrow>
                   (Inr (ret, map fst (zip names (take (length names) params_and_args)) @ sites),
                    s')))"
proof -
  have 1: "\<exists>names params_and_args s s'.
            jit_trace c (ignore_warnings self) (compiled_closure c (fn' self) kwargs0)
              names params_and_args s = (Inr art, s')"
  proof -
    have "compiled self1 \<noteq> compiled self" using assms(1,3) by auto
    with first_call_state [OF assms(1,2)]
    obtain art' names params_and_args s s' where
      j: "jit_trace c (ignore_warnings self) (compiled_closure c (fn' self) kwargs0)
            names params_and_args s = (Inr art', s')"
      and u: "compiled self1 = (compiled self)(length args0 \<mapsto> art')"
      by blast
    from u assms(3) have "art' = art" by simp
    with j show ?thesis by blast
  qed
  have 2: "call c self1 args kwargs w' = call c self1 args kwargs' w'"
    if "length args = length args0" for args kwargs kwargs' w'
    using assms(3) that by (simp add: call_def)
  show ?thesis using 1 2 by (simp add: compiled_closure_def)
qed

theorem kwargs_of_compiled_count_ignored_witness:
  "call toy_jit toy_self1 [3, 4] 7 toy_w1 = call toy_jit toy_self1 [3, 4] 0 toy_w1
   \<and> fst (call toy_jit toy_self1 [3, 4] 7 toy_w1) = Inr 7
   \<and> fst (toy_fn [3, 4] 7 (store toy_w1)) = Inr (14, [''a'', ''bb'', ''ccc''])"
proof -
  have h1: "compiled (init toy_fn False) (length [1, 2 :: nat]) = None"
    by (simp add: init_def)
  have h3: "compiled toy_self1 (length [1, 2 :: nat]) = Some (compiled_closure toy_jit toy_fn 0)"
    by (simp add: toy_self1_def)
  from kwargs_of_compiled_count_ignored [OF h1 toy_first_call h3]
  have "\<forall>args kwargs kwargs' w'. length args = length [1, 2 :: nat] \<longrightarrow>
          call toy_jit toy_self1 args kwargs w' = call toy_jit toy_self1 args kwargs' w'"
    by blast
  then have "call toy_jit toy_self1 [3, 4] 7 toy_w1 = call toy_jit toy_self1 [3, 4] 0 toy_w1"
    by simp
  moreover have "fst (call toy_jit toy_self1 [3, 4] 7 toy_w1) = Inr 7"
    by (simp only: toy_same_count fst_conv)
  moreover have "fst (toy_fn [3, 4] 7 (store toy_w1)) = Inr (14, [''a'', ''bb'', ''ccc''])"
    by (simp add: toy_fn_def)
  ultimately show ?thesis by simp
qed

end
